theory Spec2Isabelle
  imports Complex_Main
begin

section \<open>Data model\<close>

text \<open>
  Python floats are modelled as exact reals; the one non-real value the program stores
  on purpose, \<^verbatim>\<open>xp.inf\<close> (fields \<^verbatim>\<open>q\<close> and \<^verbatim>\<open>diff\<close>), is a constructor of its own.
  Rounding is modelled apart, in the float64 section, for the quotient of the expectation
  step; overflow and nan are outside this model.
\<close>

datatype pyfloat = Finite real | Infinity

text \<open>\<^verbatim>\<open>a > b\<close> for a stored float \<open>a\<close> and a real \<open>b\<close>.\<close>

fun pf_gt :: "pyfloat \<Rightarrow> real \<Rightarrow> bool" where
  "pf_gt Infinity b = True"
| "pf_gt (Finite a) b = (b < a)"

text \<open>
  The exceptions of the modelled code. \<open>ZeroDivision\<close> marks every division by zero:
  Python numbers raise there, numpy scalars and arrays continue with inf or nan, which
  is no real number, so the model stops at that point in both cases. \<open>NotReal\<close> marks a
  negative base raised to a fractional power (complex in Python, nan in numpy).
\<close>

datatype error =
  ValueError | IndexError | TypeError | OverflowError | ZeroDivision | LinAlgError | NotReal

text \<open>
  A number as Python sees it: the type decides \<^verbatim>\<open>isinstance(x, int)\<close>. A float is a finite
  value or one of \<^verbatim>\<open>inf\<close>, \<^verbatim>\<open>-inf\<close> and \<^verbatim>\<open>nan\<close>.
\<close>

datatype pynum = PyInt int | PyFloat real | PyInf | PyNegInf | PyNaN

text \<open>\<^verbatim>\<open>x < 0\<close>: false for \<^verbatim>\<open>inf\<close> and for \<^verbatim>\<open>nan\<close>, true for \<^verbatim>\<open>-inf\<close>.\<close>

fun num_neg :: "pynum \<Rightarrow> bool" where
  "num_neg (PyInt i) = (i < 0)"
| "num_neg (PyFloat r) = (r < 0)"
| "num_neg PyInf = False"
| "num_neg PyNegInf = True"
| "num_neg PyNaN = False"

text \<open>
  \<^verbatim>\<open>int(x)\<close>: the identity on an int, truncation toward zero on a finite float;
  OverflowError on an infinity, ValueError on \<^verbatim>\<open>nan\<close>.
\<close>

fun py_int :: "pynum \<Rightarrow> error + int" where
  "py_int (PyInt i) = Inr i"
| "py_int (PyFloat r) = Inr (if 0 \<le> r then \<lfloor>r\<rfloor> else \<lceil>r\<rceil>)"
| "py_int PyInf = Inl OverflowError"
| "py_int PyNegInf = Inl OverflowError"
| "py_int PyNaN = Inl ValueError"

text \<open>
  An array as numpy has it: the shape tuple and, for a 2-D array, the list of its rows.
  Arrays of another rank are rejected by the constructor before their data is read.
\<close>

datatype ndarray = NdArray (shape: "nat list") (rows: "real list list")

definition ndim :: "ndarray \<Rightarrow> nat" where
  "ndim a = length (shape a)"

text \<open>
  \<^verbatim>\<open>xp.asarray(v)\<close>: an array is returned as it is; \<^verbatim>\<open>None\<close> becomes a
  0-dimensional object array, whose shape is the empty tuple.
\<close>

fun asarray :: "ndarray option \<Rightarrow> ndarray" where
  "asarray None = NdArray [] []"
| "asarray (Some a) = a"

text \<open>\<^verbatim>\<open>a.shape[i]\<close>: a tuple index out of range raises IndexError.\<close>

definition shape_at :: "ndarray \<Rightarrow> nat \<Rightarrow> error + nat" where
  "shape_at a i = (if i < length (shape a) then Inr (shape a ! i) else Inl IndexError)"

text \<open>\<^verbatim>\<open>len(a)\<close>: a 0-dimensional array is unsized.\<close>

definition len_arr :: "ndarray \<Rightarrow> error + nat" where
  "len_arr a = (case shape a of [] \<Rightarrow> Inl TypeError | n # _ \<Rightarrow> Inr n)"

record norm_params =
  X_mean :: "real list"
  Y_mean :: "real list"
  X_scale :: real
  Y_scale :: real

text \<open>
  The attributes of \<^verbatim>\<open>EMRegistration\<close>. A 2-D array held by the engine is the list of its
  rows; every row has \<open>D\<close> coordinates.
\<close>

record emregistration =
  X_points :: "real list list"
  X_landmarks :: "real list list"
  X_points_and_landmarks :: "real list list"
  Y_points :: "real list list"
  Y_landmarks :: "real list list"
  Y_points_and_landmarks :: "real list list"
  TY_points_and_landmarks :: "real list list"
  sigma2 :: real
  N :: nat
  M :: nat
  D :: nat
  K :: nat
  iteration :: int
  max_iterations :: "int option"
  force_max_iterations :: bool
  tolerance :: real
  outliers :: real
  q :: pyfloat
  diff :: pyfloat
  P :: "real list list"
  Pt1 :: "real list"
  P1 :: "real list"
  PX :: "real list list"
  Np_with_landmarks :: real
  Np_without_landmarks :: real
  landmark_guided :: bool
  ss2 :: real
  normalize_flag :: bool
  normalize_joint :: bool
  verbose :: bool
  normalize_params :: norm_params

section \<open>Normalization\<close>

text \<open>
  The closure \<^verbatim>\<open>normalize(data, mode, invert)\<close> of \<^verbatim>\<open>calculateNormalizationParams\<close>. It
  captures the four parameters; \<open>mode\<close> is the string \<^verbatim>\<open>'X'\<close> or \<^verbatim>\<open>'Y'\<close>. The mean is
  broadcast over the rows, the scale over every coordinate. The forward map divides by
  the scale.
\<close>

definition mode_mean :: "norm_params \<Rightarrow> string \<Rightarrow> real list" where
  "mode_mean np mode = (if mode = ''X'' then X_mean np else Y_mean np)"

definition mode_scale :: "norm_params \<Rightarrow> string \<Rightarrow> real" where
  "mode_scale np mode = (if mode = ''X'' then X_scale np else Y_scale np)"

definition normalize_fn :: "norm_params \<Rightarrow> real list list \<Rightarrow> string \<Rightarrow> bool \<Rightarrow> error + real list list" where
  "normalize_fn np data mode invert =
     (let mean = mode_mean np mode; scale = mode_scale np mode in
      if invert then Inr (map (\<lambda>row. map2 (\<lambda>x m. x * scale + m) row mean) data)
      else if scale = 0 then Inl ZeroDivision
      else Inr (map (\<lambda>row. map2 (\<lambda>x m. (x - m) / scale) row mean) data))"

definition denormalize_fn :: "norm_params \<Rightarrow> real list list \<Rightarrow> string \<Rightarrow> error + real list list" where
  "denormalize_fn np data mode = normalize_fn np data mode True"

text \<open>\<^verbatim>\<open>get_transformed_points\<close>; \<^verbatim>\<open>to_numpy\<close> moves an array between devices and is the identity here.\<close>

definition get_transformed_points :: "'a emregistration_scheme \<Rightarrow> error + real list list" where
  "get_transformed_points e =
     (if normalize_flag e
      then denormalize_fn (normalize_params e) (take (M e) (TY_points_and_landmarks e)) ''X''
      else Inr (take (M e) (TY_points_and_landmarks e)))"

definition get_transformed_landmarks :: "'a emregistration_scheme \<Rightarrow> error + real list list" where
  "get_transformed_landmarks e =
     (if normalize_flag e
      then denormalize_fn (normalize_params e) (drop (M e) (TY_points_and_landmarks e)) ''X''
      else Inr (drop (M e) (TY_points_and_landmarks e)))"

section \<open>Array helpers\<close>

text \<open>Sum of the squared coordinate differences of two points.\<close>

definition sqdist :: "real list \<Rightarrow> real list \<Rightarrow> real" where
  "sqdist x y = sum_list (map2 (\<lambda>a b. (a - b)\<^sup>2) x y)"

text \<open>\<^verbatim>\<open>xp.sum(A, axis=0)\<close> of an array of width \<open>w\<close>, and \<^verbatim>\<open>xp.sum(A, axis=1)\<close>.\<close>

definition col_sums :: "nat \<Rightarrow> real list list \<Rightarrow> real list" where
  "col_sums w A = map (\<lambda>j. sum_list (map (\<lambda>r. r ! j) A)) [0..<w]"

definition row_sums :: "real list list \<Rightarrow> real list" where
  "row_sums A = map sum_list A"

text \<open>\<^verbatim>\<open>xp.matmul(A, C)\<close> for \<open>C\<close> of width \<open>w\<close>.\<close>

definition mat_mul :: "real list list \<Rightarrow> real list list \<Rightarrow> nat \<Rightarrow> real list list" where
  "mat_mul A C w = map (\<lambda>r. map (\<lambda>d. sum_list (map2 (\<lambda>a crow. a * crow ! d) r C)) [0..<w]) A"

text \<open>\<^verbatim>\<open>xp.divide(A, C)\<close>, entry by entry, for arrays of one shape.\<close>

definition divide_m :: "real list list \<Rightarrow> real list list \<Rightarrow> real list list" where
  "divide_m A C = map2 (\<lambda>arow crow. map2 (\<lambda>a c. a / c) arow crow) A C"

text \<open>\<^verbatim>\<open>xp.finfo(float).eps\<close> of IEEE double precision.\<close>

definition float_eps :: real where
  "float_eps = 1 / 2 ^ 52"

text \<open>
  \<^verbatim>\<open>b ** x\<close> on floats, for \<open>x \<ge> 0\<close>: \<open>powr\<close> on a positive base; \<^verbatim>\<open>0.0 ** 0.0\<close> is 1; a
  negative base has a real power only for an integral exponent.
\<close>

definition py_pow :: "real \<Rightarrow> real \<Rightarrow> error + real" where
  "py_pow b x =
     (if 0 < b then Inr (b powr x)
      else if b = 0 then (if x = 0 then Inr 1 else if 0 < x then Inr 0 else Inl ZeroDivision)
      else if x = real_of_int \<lfloor>x\<rfloor> then Inr (b powi \<lfloor>x\<rfloor>)
      else Inl NotReal)"

section \<open>Expectation step\<close>

text \<open>
  The matrix \<^verbatim>\<open>exp(-P / (2 * sigma2))\<close> of \<^verbatim>\<open>expectation\<close>: one row per source point of
  \<^verbatim>\<open>TY_points_and_landmarks[:M]\<close>, one column per target point.
\<close>

definition gauss_kernel :: "'a emregistration_scheme \<Rightarrow> real list list" where
  "gauss_kernel e =
     map (\<lambda>y. map (\<lambda>x. exp (- sqdist x y / (2 * sigma2 e))) (X_points e))
         (take (M e) (TY_points_and_landmarks e))"

text \<open>The constant \<^verbatim>\<open>c\<close>, in the three assignments of the source.\<close>

definition outlier_const :: "'a emregistration_scheme \<Rightarrow> error + real" where
  "outlier_const e =
     (case py_pow (2 * pi * sigma2 e) (real (D e) / 2) of
        Inl err \<Rightarrow> Inl err
      | Inr c0 \<Rightarrow>
          if 1 - outliers e = 0 then Inl ZeroDivision
          else let c1 = c0 * outliers e / (1 - outliers e) in
            if N e = 0 then Inl ZeroDivision
            else Inr (c1 * real (M e) / real (N e)))"

text \<open>
  The denominator: the column sums of the kernel plus \<open>c\<close>, tiled to \<open>M\<close> rows, with
  every zero entry replaced by machine epsilon.
\<close>

definition guarded_den :: "'a emregistration_scheme \<Rightarrow> real \<Rightarrow> real list list" where
  "guarded_den e c =
     (let den = map (\<lambda>s. s + c) (col_sums (length (X_points e)) (gauss_kernel e));
          den = replicate (M e) den
      in map (map (\<lambda>d. if d = 0 then float_eps else d)) den)"

text \<open>
  The landmark part: \<^verbatim>\<open>xp.pad\<close> adds \<open>K\<close> zero rows and columns; then the rows from \<open>M\<close> on
  get, from column \<open>N\<close> on, the rows of \<^verbatim>\<open>xp.identity(K) * sigma2 / ss2\<close>.
\<close>

definition pad_zero :: "nat \<Rightarrow> nat \<Rightarrow> real list list \<Rightarrow> real list list" where
  "pad_zero k w A = map (\<lambda>r. r @ replicate k 0) A @ replicate k (replicate (w + k) 0)"

definition scaled_identity :: "nat \<Rightarrow> real \<Rightarrow> real \<Rightarrow> real list list" where
  "scaled_identity k s d =
     map (\<lambda>i. map (\<lambda>j. (if i = j then 1 else 0) * s / d) [0..<k]) [0..<k]"

definition set_block :: "nat \<Rightarrow> nat \<Rightarrow> real list list \<Rightarrow> real list list \<Rightarrow> real list list" where
  "set_block m n A blk = take m A @ map2 (\<lambda>r b. take n r @ b) (drop m A) blk"

text \<open>
  \<^verbatim>\<open>expectation\<close>, in exact arithmetic. A division by zero (\<open>sigma2 = 0\<close>, an outlier weight
  of 1, no target point, \<open>ss2 = 0\<close> when landmark-guided) ends the step with \<open>ZeroDivision\<close>;
  the numpy code goes on there with inf or nan entries.
\<close>

definition expectation :: "'a emregistration_scheme \<Rightarrow> error + 'a emregistration_scheme" where
  "expectation e =
     (if 2 * sigma2 e = 0 then Inl ZeroDivision
      else case outlier_const e of
        Inl err \<Rightarrow> Inl err
      | Inr c \<Rightarrow>
          let Pm = divide_m (gauss_kernel e) (guarded_den e c);
              w = length (X_points e)
          in if landmark_guided e \<and> ss2 e = 0 then Inl ZeroDivision
          else
            let Pm = (if landmark_guided e
                      then set_block (M e) (N e) (pad_zero (K e) w Pm)
                             (scaled_identity (K e) (sigma2 e) (ss2 e))
                      else Pm);
                w = (if landmark_guided e then w + K e else w);
                P1v = row_sums Pm
            in Inr (e\<lparr>P := Pm,
                      Pt1 := col_sums w Pm,
                      P1 := P1v,
                      Np_with_landmarks := sum_list P1v,
                      Np_without_landmarks := sum_list (take (M e) P1v),
                      PX := mat_mul Pm (X_points_and_landmarks e) (D e)\<rparr>))"

text \<open>
  The shapes the constructor gives the arrays the expectation step reads: \<open>N\<close> target
  points, and \<open>M\<close> source points followed by \<open>K\<close> landmarks in the transformed cloud.
\<close>

definition shapes_ok :: "'a emregistration_scheme \<Rightarrow> bool" where
  "shapes_ok e \<longleftrightarrow>
     length (X_points e) = N e \<and> length (TY_points_and_landmarks e) = M e + K e"

section \<open>Affine transform model\<close>

text \<open>
  \<^verbatim>\<open>AffineRegistration\<close> extends the engine. \<open>t\<close> is kept as its list of \<open>D\<close> entries: it is
  a 1xD array at construction and a 1-D array after \<^verbatim>\<open>update_transform\<close>, and \<^verbatim>\<open>xp.tile\<close>
  repeats both as the same rows.
\<close>

record affine_registration = emregistration +
  B :: "real list list"
  t :: "real list"
  X_hat :: "real list list"
  A :: "real list list"
  YPY :: "real list list"

text \<open>\<^verbatim>\<open>xp.transpose\<close> of an array of width \<open>w\<close>, \<^verbatim>\<open>xp.diag\<close> of a vector, and \<^verbatim>\<open>xp.dot\<close> of
  a matrix with a vector and of a vector with a matrix of width \<open>w\<close>.\<close>

definition transpose_m :: "nat \<Rightarrow> real list list \<Rightarrow> real list list" where
  "transpose_m w C = map (\<lambda>j. map (\<lambda>r. r ! j) C) [0..<w]"

definition diag_m :: "real list \<Rightarrow> real list list" where
  "diag_m v = map (\<lambda>i. map (\<lambda>j. if i = j then v ! i else 0) [0..<length v]) [0..<length v]"

definition mat_vec :: "real list list \<Rightarrow> real list \<Rightarrow> real list" where
  "mat_vec C v = map (\<lambda>r. sum_list (map2 (\<lambda>a b. a * b) r v)) C"

definition vec_mat :: "real list \<Rightarrow> real list list \<Rightarrow> nat \<Rightarrow> real list" where
  "vec_mat v C w = map (\<lambda>d. sum_list (map2 (\<lambda>a crow. a * crow ! d) v C)) [0..<w]"

text \<open>Entry-wise sum and difference of two arrays of one shape.\<close>

definition add_m :: "real list list \<Rightarrow> real list list \<Rightarrow> real list list" where
  "add_m C E = map2 (\<lambda>crow erow. map2 (\<lambda>a b. a + b) crow erow) C E"

definition sub_m :: "real list list \<Rightarrow> real list list \<Rightarrow> real list list" where
  "sub_m C E = map2 (\<lambda>crow erow. map2 (\<lambda>a b. a - b) crow erow) C E"

text \<open>
  \<^verbatim>\<open>xp.linalg.solve\<close> is numpy's: it is a parameter of the model, a function that returns
  the solution or raises (\<open>LinAlgError\<close> on a singular matrix).
\<close>

type_synonym solver = "real list list \<Rightarrow> real list list \<Rightarrow> error + real list list"

definition update_transform ::
  "solver \<Rightarrow> 'a affine_registration_scheme \<Rightarrow> error + 'a affine_registration_scheme" where
  "update_transform linalg_solve e =
     (if Np_with_landmarks e = 0 then Inl ZeroDivision
      else
        let muX = map (\<lambda>s. s / Np_with_landmarks e) (col_sums (D e) (PX e));
            muY = map (\<lambda>s. s / Np_with_landmarks e)
                    (col_sums (D e)
                       (mat_mul (transpose_m (N e + K e) (P e)) (Y_points_and_landmarks e) (D e)));
            Xh = sub_m (X_points_and_landmarks e) (replicate (N e + K e) muX);
            Y_hat = sub_m (Y_points_and_landmarks e) (replicate (M e + K e) muY);
            A0 = mat_mul (transpose_m (D e) Xh) (transpose_m (N e + K e) (P e)) (M e + K e);
            A1 = mat_mul A0 Y_hat (D e);
            YPY0 = mat_mul (transpose_m (D e) Y_hat) (diag_m (P1 e)) (M e + K e);
            YPY1 = mat_mul YPY0 Y_hat (D e)
        in case linalg_solve (transpose_m (D e) YPY1) (transpose_m (D e) A1) of
             Inl err \<Rightarrow> Inl err
           | Inr Bn \<Rightarrow>
               Inr (e\<lparr>X_hat := Xh, A := A1, YPY := YPY1, B := Bn,
                       t := map2 (\<lambda>a b. a - b) muX (mat_vec (transpose_m (D e) Bn) muY)\<rparr>))"

definition transform_point_cloud :: "'a affine_registration_scheme \<Rightarrow> 'a affine_registration_scheme" where
  "transform_point_cloud e =
     e\<lparr>TY_points_and_landmarks :=
          add_m (mat_mul (Y_points_and_landmarks e) (B e) (D e)) (replicate (M e + K e) (t e))\<rparr>"

text \<open>
  \<^verbatim>\<open>update_variance\<close>: the three sums over the non-landmark points, the new variance, its
  replacement by \<^verbatim>\<open>tolerance / 10\<close> when it is not positive, and the change of the variance.
\<close>

definition sq_norms :: "real list list \<Rightarrow> real list" where
  "sq_norms C = row_sums (map (\<lambda>r. map2 (\<lambda>a b. a * b) r r) C)"

definition dot_v :: "real list \<Rightarrow> real list \<Rightarrow> real" where
  "dot_v u v = sum_list (map2 (\<lambda>a b. a * b) u v)"

definition update_variance :: "'a affine_registration_scheme \<Rightarrow> error + 'a affine_registration_scheme" where
  "update_variance e =
     (let qprev = sigma2 e;
          xPx = dot_v (take (N e) (Pt1 e)) (sq_norms (X_points e));
          yPy = dot_v (take (M e) (P1 e)) (sq_norms (take (M e) (TY_points_and_landmarks e)));
          trPXY = sum_list (map sum_list
                    (map2 (\<lambda>trow prow. map2 (\<lambda>a b. a * b) trow prow)
                       (take (M e) (TY_points_and_landmarks e)) (take (M e) (PX e))))
      in if Np_without_landmarks e * real (D e) = 0 then Inl ZeroDivision
         else
           let s = (xPx - 2 * trPXY + yPy) / (Np_without_landmarks e * real (D e));
               s = (if s \<le> 0 then tolerance e / 10 else s)
           in Inr (e\<lparr>q := Infinity, sigma2 := s, diff := Finite \<bar>s - qprev\<bar>\<rparr>))"

section \<open>The iteration and the registration loop\<close>

definition update_hyperparameters :: "'a affine_registration_scheme \<Rightarrow> 'a affine_registration_scheme" where
  "update_hyperparameters e = e"

definition maximization ::
  "solver \<Rightarrow> 'a affine_registration_scheme \<Rightarrow> error + 'a affine_registration_scheme" where
  "maximization linalg_solve e =
     (case update_transform linalg_solve e of
        Inl err \<Rightarrow> Inl err
      | Inr e1 \<Rightarrow> update_variance (transform_point_cloud e1))"

definition iterate ::
  "solver \<Rightarrow> 'a affine_registration_scheme \<Rightarrow> error + 'a affine_registration_scheme" where
  "iterate linalg_solve e =
     (case expectation (update_hyperparameters e) of
        Inl err \<Rightarrow> Inl err
      | Inr e1 \<Rightarrow>
          (case maximization linalg_solve e1 of
             Inl err \<Rightarrow> Inl err
           | Inr e2 \<Rightarrow> Inr (e2\<lparr>iteration := iteration e2 + 1\<rparr>)))"

text \<open>The condition of the \<^verbatim>\<open>while\<close> loop of \<^verbatim>\<open>register\<close>.\<close>

definition loop_cond :: "'a emregistration_scheme \<Rightarrow> bool" where
  "loop_cond e \<longleftrightarrow>
     (case max_iterations e of None \<Rightarrow> True | Some c \<Rightarrow> iteration e < c) \<and>
     ((max_iterations e \<noteq> None \<and> force_max_iterations e) \<or> pf_gt (diff e) (tolerance e))"

text \<open>The keyword arguments of one call of the callback.\<close>

record callback_kwargs =
  kw_iteration :: int
  kw_error :: pyfloat
  kw_X :: "real list list"
  kw_Y :: "real list list"

definition make_kwargs :: "'a emregistration_scheme \<Rightarrow> callback_kwargs" where
  "make_kwargs e = \<lparr>kw_iteration = iteration e, kw_error = q e, kw_X = X_points e,
                    kw_Y = take (M e) (TY_points_and_landmarks e)\<rparr>"

text \<open>
  The loop, with the list of the callback's calls so far. The loop may run forever, so
  it takes fuel: the outcome is \<open>None\<close> when the fuel ends while the condition still
  holds, \<open>Some (Inl err)\<close> when an iteration raises, \<open>Some (Inr e)\<close> when the condition
  fails at state \<open>e\<close>. \<open>has_cb\<close> is \<^verbatim>\<open>callable(callback)\<close>.
\<close>

fun register_loop ::
  "solver \<Rightarrow> bool \<Rightarrow> nat \<Rightarrow> 'a affine_registration_scheme \<Rightarrow> callback_kwargs list
     \<Rightarrow> callback_kwargs list \<times> (error + 'a affine_registration_scheme) option" where
  "register_loop sv has_cb 0 e calls = (calls, if loop_cond e then None else Some (Inr e))"
| "register_loop sv has_cb (Suc fuel) e calls =
     (if loop_cond e then
        (case iterate sv e of
           Inl err \<Rightarrow> (calls, Some (Inl err))
         | Inr e' \<Rightarrow> register_loop sv has_cb fuel e'
                       (if has_cb then calls @ [make_kwargs e'] else calls))
      else (calls, Some (Inr e)))"


text \<open>\<^verbatim>\<open>get_registration_parameters\<close> of the affine model.\<close>

definition get_registration_parameters ::
  "'a affine_registration_scheme \<Rightarrow> error + real list list \<times> real list" where
  "get_registration_parameters e =
     (if normalize_flag e then
        let np = normalize_params e in
        if Y_scale np = 0 then Inl ZeroDivision
        else
          let Bd = map (map (\<lambda>b. b * X_scale np / Y_scale np)) (B e);
              td = map2 (\<lambda>a b. a - b)
                     (map2 (\<lambda>a m. a * X_scale np + m) (t e) (X_mean np))
                     (vec_mat (Y_mean np) Bd (D e))
          in Inr (Bd, td)
      else Inr (B e, t e))"

text \<open>\<^verbatim>\<open>register\<close>: the calls of the callback and, when the loop ends, what is returned.\<close>

definition register ::
  "solver \<Rightarrow> bool \<Rightarrow> nat \<Rightarrow> 'a affine_registration_scheme
     \<Rightarrow> callback_kwargs list \<times> (error + real list list \<times> real list list \<times> real list) option" where
  "register sv has_cb fuel e =
     (case register_loop sv has_cb fuel (transform_point_cloud e) [] of
        (calls, None) \<Rightarrow> (calls, None)
      | (calls, Some (Inl err)) \<Rightarrow> (calls, Some (Inl err))
      | (calls, Some (Inr e')) \<Rightarrow>
          (calls,
           Some (case get_transformed_points e' of
                   Inl err \<Rightarrow> Inl err
                 | Inr TY \<Rightarrow>
                     (case get_registration_parameters e' of
                        Inl err \<Rightarrow> Inl err
                      | Inr (Bd, td) \<Rightarrow> Inr (TY, Bd, td)))))"

section \<open>Construction\<close>

text \<open>The arguments of \<^verbatim>\<open>EMRegistration.__init__\<close>; \<open>None\<close> is an argument left out, or
  passed as \<^verbatim>\<open>None\<close>.\<close>

record init_args =
  arg_X :: ndarray
  arg_Y :: ndarray
  arg_sigma2 :: "real option"
  arg_max_iterations :: "pynum option"
  arg_tolerance :: "real option"
  arg_outliers :: "real option"
  arg_ss2 :: "real option"
  arg_X_landmarks :: "ndarray option"
  arg_Y_landmarks :: "ndarray option"
  arg_normalize :: "bool option"
  arg_normalize_joint :: "bool option"
  arg_verbose :: "bool option"
  arg_force_max_iterations :: "bool option"

text \<open>The warning of the constructor, with the value it reports.\<close>

datatype warning = NonIntegerMaxIterations pynum

definition bind_e :: "error + 'a \<Rightarrow> ('a \<Rightarrow> error + 'b) \<Rightarrow> error + 'b" where
  "bind_e m f = (case m of Inl err \<Rightarrow> Inl err | Inr x \<Rightarrow> f x)"

text \<open>\<^verbatim>\<open>initialize_sigma2\<close>, on the rows of the two clouds and their dimension.\<close>

definition initialize_sigma2 :: "nat \<Rightarrow> real list list \<Rightarrow> real list list \<Rightarrow> error + real" where
  "initialize_sigma2 d Xs Ys =
     (if d * length Ys * length Xs = 0 then Inl ZeroDivision
      else Inr (sum_list (map (\<lambda>y. sum_list (map (\<lambda>x. sqdist x y) Xs)) Ys)
                / real (d * length Ys * length Xs)))"

text \<open>\<^verbatim>\<open>xp.concatenate([a, b])\<close> along the rows, for a 2-D array \<open>a\<close>: \<open>b\<close> must be 2-D and
  of the same width.\<close>

definition concatenate :: "ndarray \<Rightarrow> ndarray \<Rightarrow> error + real list list" where
  "concatenate a b =
     (if length (shape b) = 2 \<and> shape b ! 1 = shape a ! 1 then Inr (rows a @ rows b)
      else Inl ValueError)"

text \<open>\<^verbatim>\<open>xp.mean(C, axis=0)\<close> of an array of width \<open>w\<close>, and the scale
  \<^verbatim>\<open>sqrt(sum(sum(power(C, 2), axis=1)) / len(C))\<close>.\<close>

definition mean_axis0 :: "nat \<Rightarrow> real list list \<Rightarrow> error + real list" where
  "mean_axis0 w C =
     (if length C = 0 then Inl ZeroDivision
      else Inr (map (\<lambda>s. s / real (length C)) (col_sums w C)))"

definition rms_scale :: "real list list \<Rightarrow> nat \<Rightarrow> error + real" where
  "rms_scale C n =
     (if n = 0 then Inl ZeroDivision
      else Inr (sqrt (sum_list (row_sums (map (map (\<lambda>x. x\<^sup>2)) C)) / real n)))"

definition sub_rows :: "real list list \<Rightarrow> real list \<Rightarrow> real list list" where
  "sub_rows C m = map (\<lambda>row. map2 (\<lambda>x y. x - y) row m) C"

text \<open>\<^verbatim>\<open>calculateNormalizationParams\<close>: the four parameters.\<close>

definition calculateNormalizationParams ::
  "bool \<Rightarrow> bool \<Rightarrow> nat \<Rightarrow> real list list \<Rightarrow> real list list \<Rightarrow> error + norm_params" where
  "calculateNormalizationParams nflag joint d Xpl Ypl =
     (if nflag then
        bind_e (if joint then bind_e (mean_axis0 d (Xpl @ Ypl)) (\<lambda>m. Inr (m, m))
                else bind_e (mean_axis0 d Xpl) (\<lambda>mx. bind_e (mean_axis0 d Ypl) (\<lambda>my. Inr (mx, my))))
          (\<lambda>(mx, my).
             let Xc = sub_rows Xpl mx; Yc = sub_rows Ypl my in
             bind_e (if joint then bind_e (rms_scale (Xc @ Yc) (length Xc + length Yc)) (\<lambda>s. Inr (s, s))
                     else bind_e (rms_scale Xc (length Xc))
                            (\<lambda>sx. bind_e (rms_scale Yc (length Yc)) (\<lambda>sy. Inr (sx, sy))))
               (\<lambda>(sx, sy). Inr \<lparr>X_mean = mx, Y_mean = my, X_scale = sx, Y_scale = sy\<rparr>))
      else Inr \<lparr>X_mean = replicate d 0, Y_mean = replicate d 0, X_scale = 1, Y_scale = 1\<rparr>)"

text \<open>
  \<^verbatim>\<open>EMRegistration.__init__\<close>, check by check in the order of the source, in two parts.
  \<open>em_init_rest\<close> is the constructor from the check of \<^verbatim>\<open>tolerance\<close> to its end, given the
  value \<^verbatim>\<open>max_iterations\<close> has after the cast.
\<close>

definition em_init_rest :: "init_args \<Rightarrow> int option \<Rightarrow> error + emregistration" where
  "em_init_rest a max_it =
     (let Xa = arg_X a; Ya = arg_Y a;
          Xl = asarray (arg_X_landmarks a); Yl = asarray (arg_Y_landmarks a);
          verb = (case arg_verbose a of None \<Rightarrow> False | Some v \<Rightarrow> v)
      in
        if (case arg_tolerance a of None \<Rightarrow> False | Some x \<Rightarrow> x < 0) then Inl ValueError
        else if (case arg_outliers a of None \<Rightarrow> False | Some x \<Rightarrow> x < 0 \<or> 1 \<le> x) then Inl ValueError
        else if (case arg_ss2 a of None \<Rightarrow> False | Some x \<Rightarrow> x \<le> 0) then Inl ValueError
        else
          bind_e (shape_at Xl 0) (\<lambda>k0.
          let guided = (k0 \<noteq> 0 \<and> shape Xl = shape Yl) in
          bind_e (len_arr Xl) (\<lambda>lx.
          if lx = 0 then Inl ValueError
          else bind_e (len_arr Yl) (\<lambda>ly.
          if ly = 0 then Inl ValueError
          else if shape Xl \<noteq> shape Yl then Inl ValueError
          else
            let n = shape Xa ! 0; d = shape Xa ! 1; m = shape Ya ! 0;
                ss = (case arg_ss2 a of None \<Rightarrow> 1 / 10 | Some x \<Rightarrow> x);
                k = (if \<not> guided then 0 else k0);
                Xlm = (if guided then Xl else NdArray [0, d] []);
                Ylm = (if guided then Yl else NdArray [0, d] [])
            in
            bind_e (concatenate Xa Xlm) (\<lambda>Xpl.
            bind_e (concatenate Ya Ylm) (\<lambda>Ypl.
            let nflag = (case arg_normalize a of None \<Rightarrow> False | Some v \<Rightarrow> v);
                joint = (case arg_normalize_joint a of None \<Rightarrow> False | Some v \<Rightarrow> v)
            in
            bind_e (calculateNormalizationParams nflag joint d Xpl Ypl) (\<lambda>np.
            bind_e (normalize_fn np (rows Xa) ''X'' False) (\<lambda>Xp.
            bind_e (normalize_fn np (rows Xlm) ''X'' False) (\<lambda>Xlr.
            bind_e (normalize_fn np Xpl ''X'' False) (\<lambda>Xplr.
            bind_e (normalize_fn np (rows Ya) ''Y'' False) (\<lambda>Yp.
            bind_e (normalize_fn np (rows Ylm) ''Y'' False) (\<lambda>Ylr.
            bind_e (normalize_fn np Ypl ''Y'' False) (\<lambda>Yplr.
            bind_e (normalize_fn np Ypl ''Y'' False) (\<lambda>TYr.
            bind_e (case arg_sigma2 a of None \<Rightarrow> initialize_sigma2 d Xp Yp | Some s \<Rightarrow> Inr s) (\<lambda>sg.
            Inr \<lparr>X_points = Xp, X_landmarks = Xlr, X_points_and_landmarks = Xplr,
                  Y_points = Yp, Y_landmarks = Ylr, Y_points_and_landmarks = Yplr,
                  TY_points_and_landmarks = TYr,
                  sigma2 = sg, N = n, M = m, D = d, K = k,
                  iteration = 0, max_iterations = max_it,
                  force_max_iterations =
                    (case arg_force_max_iterations a of
                       None \<Rightarrow> False
                     | Some f \<Rightarrow> if max_it = None then False else f),
                  tolerance = (case arg_tolerance a of None \<Rightarrow> 1 / 1000 | Some x \<Rightarrow> x),
                  outliers = (case arg_outliers a of None \<Rightarrow> 0 | Some x \<Rightarrow> x),
                  q = Infinity, diff = Infinity,
                  P = replicate (m + k) (replicate (n + k) 0),
                  Pt1 = replicate (n + k) 0, P1 = replicate (m + k) 0,
                  PX = replicate (m + k) (replicate d 0),
                  Np_with_landmarks = 0, Np_without_landmarks = 0,
                  landmark_guided = guided, ss2 = ss,
                  normalize_flag = nflag, normalize_joint = joint, verbose = verb,
                  normalize_params = np\<rparr>)))))))))))))))"

text \<open>
  The first checks, the cast of \<^verbatim>\<open>max_iterations\<close> with its warning, then the rest. The
  result is the engine and the warnings issued. The warning comes before the cast: when
  the cast raises, the constructor ends with that exception.
\<close>

definition em_init :: "init_args \<Rightarrow> error + emregistration \<times> warning list" where
  "em_init a =
     (let Xa = arg_X a; Ya = arg_Y a in
      if ndim Xa \<noteq> 2 then Inl ValueError
      else if ndim Ya \<noteq> 2 then Inl ValueError
      else if shape Xa ! 1 \<noteq> shape Ya ! 1 then Inl ValueError
      else if (case arg_sigma2 a of None \<Rightarrow> False | Some s \<Rightarrow> s \<le> 0) then Inl ValueError
      else if (case arg_max_iterations a of None \<Rightarrow> False | Some c \<Rightarrow> num_neg c) then Inl ValueError
      else
        bind_e (case arg_max_iterations a of
                  None \<Rightarrow> Inr (None, [])
                | Some (PyInt i) \<Rightarrow> Inr (Some i, [])
                | Some c \<Rightarrow> bind_e (py_int c) (\<lambda>i. Inr (Some i, [NonIntegerMaxIterations c])))
          (\<lambda>(max_it, warns). bind_e (em_init_rest a max_it) (\<lambda>e. Inr (e, warns))))"

text \<open>
  \<^verbatim>\<open>AffineRegistration.__init__\<close>. \<^verbatim>\<open>is_positive_semi_definite\<close> comes from the
  utility module and is a parameter. A supplied \<open>t\<close> is a 1xD array; its one row is kept. \<open>X_hat\<close>,
  \<open>A\<close> and \<open>YPY\<close> do not exist before the first \<^verbatim>\<open>update_transform\<close> and start empty.
\<close>

definition affine_init ::
  "(ndarray \<Rightarrow> bool) \<Rightarrow> ndarray option \<Rightarrow> ndarray option \<Rightarrow> init_args
     \<Rightarrow> error + affine_registration \<times> warning list" where
  "affine_init is_positive_semi_definite Barg targ a =
     bind_e (em_init a) (\<lambda>(e, warns).
       if (case Barg of None \<Rightarrow> False
           | Some b \<Rightarrow> ndim b \<noteq> 2 \<or> shape b ! 0 \<noteq> D e \<or> shape b ! 1 \<noteq> D e
                        \<or> \<not> is_positive_semi_definite b)
       then Inl ValueError
       else if (case targ of None \<Rightarrow> False
                | Some v \<Rightarrow> ndim v \<noteq> 2 \<or> shape v ! 0 \<noteq> 1 \<or> shape v ! 1 \<noteq> D e)
       then Inl ValueError
       else Inr (emregistration.extend e
                   (affine_registration.fields
                      (case Barg of
                         None \<Rightarrow> map (\<lambda>i. map (\<lambda>j. if i = j then 1 else 0) [0..<D e]) [0..<D e]
                       | Some b \<Rightarrow> rows b)
                      (case targ of None \<Rightarrow> replicate (D e) 0 | Some v \<Rightarrow> hd (rows v))
                      [] [] []),
                 warns))"

section \<open>Predicates and example data of the properties\<close>

text \<open>
  The ranges the constructor checks, with the shapes it builds: positive variance,
  outlier weight in [0, 1), positive landmark influence.
\<close>

definition valid_state :: "'a emregistration_scheme \<Rightarrow> bool" where
  "valid_state e \<longleftrightarrow>
     shapes_ok e \<and> 0 < sigma2 e \<and> 0 \<le> outliers e \<and> outliers e < 1 \<and> 0 < ss2 e"


text \<open>
  A landmark-guided engine in one dimension: target point 0 and source point 0, one
  landmark pair at 1, as the constructor leaves it.
\<close>

definition example_reg :: affine_registration where
  "example_reg = \<lparr>
     X_points = [[0]], X_landmarks = [[1]], X_points_and_landmarks = [[0], [1]],
     Y_points = [[0]], Y_landmarks = [[1]], Y_points_and_landmarks = [[0], [1]],
     TY_points_and_landmarks = [[0], [1]],
     sigma2 = 1, N = 1, M = 1, D = 1, K = 1,
     iteration = 0, max_iterations = Some 1, force_max_iterations = True,
     tolerance = 1 / 1000, outliers = 0, q = Infinity, diff = Infinity,
     P = [[0, 0], [0, 0]], Pt1 = [0, 0], P1 = [0, 0], PX = [[0], [0]],
     Np_with_landmarks = 0, Np_without_landmarks = 0,
     landmark_guided = True, ss2 = 1 / 10,
     normalize_flag = False, normalize_joint = False, verbose = False,
     normalize_params = \<lparr>X_mean = [0], Y_mean = [0], X_scale = 1, Y_scale = 1\<rparr>,
     B = [[1]], t = [0], X_hat = [], A = [], YPY = []\<rparr>"

text \<open>
  The arguments that construct \<open>example_reg\<close>: one target and one source point at 0, one
  landmark pair at 1, variance 1 and one forced iteration.
\<close>

definition example_args :: init_args where
  "example_args = \<lparr>
     arg_X = NdArray [1, 1] [[0]], arg_Y = NdArray [1, 1] [[0]],
     arg_sigma2 = Some 1, arg_max_iterations = Some (PyInt 1),
     arg_tolerance = None, arg_outliers = None, arg_ss2 = None,
     arg_X_landmarks = Some (NdArray [1, 1] [[1]]), arg_Y_landmarks = Some (NdArray [1, 1] [[1]]),
     arg_normalize = None, arg_normalize_joint = None, arg_verbose = Some False,
     arg_force_max_iterations = Some True\<rparr>"

text \<open>A solver for the concrete runs: \<^verbatim>\<open>xp.linalg.solve\<close> on systems of one equation.\<close>

definition solve_1x1 :: solver where
  "solve_1x1 Am Bm =
     (case (Am, Bm) of
        ([[a]], [[b]]) \<Rightarrow> if a = 0 then Inl LinAlgError else Inr [[b / a]]
      | _ \<Rightarrow> Inl LinAlgError)"

section \<open>Float64 arithmetic\<close>












text \<open>
  A state whose denominators are zero in exact arithmetic: two target points and one
  source point at 0, \<open>2 * pi * sigma2 = 1\<close> and an outlier weight of 2, so that \<open>c = -1\<close>
  cancels the kernel sum 1. The constructor rejects this weight; with weights in [0, 1) a
  zero denominator arises only in float64, when every kernel entry of a column underflows.
\<close>

definition zero_den_reg :: affine_registration where
  "zero_den_reg = example_reg\<lparr>
     X_points := [[0], [0]], X_landmarks := [], X_points_and_landmarks := [[0], [0]],
     Y_landmarks := [], Y_points_and_landmarks := [[0]], TY_points_and_landmarks := [[0]],
     N := 2, K := 0, landmark_guided := False, sigma2 := 1 / (2 * pi), outliers := 2\<rparr>"

text \<open>
  Twenty source points and two target points, all at the origin of the plane, one landmark
  pair, variance 1, no outliers; and the arguments that construct this engine.
\<close>

definition float_counter_reg :: affine_registration where
  "float_counter_reg = example_reg\<lparr>
     X_points := [[0, 0], [0, 0]], X_landmarks := [[1, 0]],
     X_points_and_landmarks := [[0, 0], [0, 0], [1, 0]],
     Y_points := replicate 20 [0, 0], Y_landmarks := [[1, 0]],
     Y_points_and_landmarks := replicate 20 [0, 0] @ [[1, 0]],
     TY_points_and_landmarks := replicate 20 [0, 0] @ [[1, 0]],
     N := 2, M := 20, D := 2,
     P := replicate 21 [0, 0, 0], Pt1 := [0, 0, 0], P1 := replicate 21 0,
     PX := replicate 21 [0, 0],
     normalize_params := \<lparr>X_mean = [0, 0], Y_mean = [0, 0], X_scale = 1, Y_scale = 1\<rparr>,
     B := [[1, 0], [0, 1]], t := [0, 0]\<rparr>"

definition float_counter_args :: init_args where
  "float_counter_args = example_args\<lparr>
     arg_X := NdArray [2, 2] [[0, 0], [0, 0]], arg_Y := NdArray [20, 2] (replicate 20 [0, 0]),
     arg_X_landmarks := Some (NdArray [1, 2] [[1, 0]]),
     arg_Y_landmarks := Some (NdArray [1, 2] [[1, 0]])\<rparr>"

section \<open>Properties of the normalization\<close>

lemma map2_roundtrip:
  "length row = length mean \<Longrightarrow> s \<noteq> (0::real) \<Longrightarrow>
   map2 (\<lambda>x m. x * s + m) (map2 (\<lambda>x m. (x - m) / s) row mean) mean = row"
proof (induction row arbitrary: mean)
  case Nil
  then show ?case by simp
next
  case (Cons x xs)
  then obtain m ms where "mean = m # ms" by (cases mean) auto
  with Cons show ?case by simp
qed

text \<open>
  C7. For a point array whose rows have as many coordinates as the mean, and a nonzero
  scale, the forward map followed by the inverse map of the same side gives the array
  back, in exact arithmetic.
\<close>

theorem normalize_roundtrip:
  assumes "\<forall>row \<in> set p. length row = length (mode_mean np mode)"
    and "mode_scale np mode \<noteq> 0"
  shows "\<exists>p'. normalize_fn np p mode False = Inr p' \<and> denormalize_fn np p' mode = Inr p"
proof -
  let ?mean = "mode_mean np mode" and ?s = "mode_scale np mode"
  let ?p' = "map (\<lambda>row. map2 (\<lambda>x m. (x - m) / ?s) row ?mean) p"
  have fwd: "normalize_fn np p mode False = Inr ?p'"
    using assms(2) by (simp add: normalize_fn_def Let_def)
  have "map (\<lambda>row. map2 (\<lambda>x m. x * ?s + m) row ?mean) ?p' = p"
    using assms by (simp add: map2_roundtrip map_idI)
  then have "denormalize_fn np ?p' mode = Inr p"
    by (simp add: denormalize_fn_def normalize_fn_def Let_def)
  with fwd show ?thesis by blast
qed

theorem normalize_roundtrip_witness:
  "length [1, 2 :: real] = length (mode_mean \<lparr>X_mean = [2, 3], Y_mean = [0, 0], X_scale = 4, Y_scale = 1\<rparr> ''X'')
   \<and> length [3, 5 :: real] = length (mode_mean \<lparr>X_mean = [2, 3], Y_mean = [0, 0], X_scale = 4, Y_scale = 1\<rparr> ''X'')
   \<and> mode_scale \<lparr>X_mean = [2, 3], Y_mean = [0, 0], X_scale = 4, Y_scale = 1\<rparr> ''X'' \<noteq> 0
   \<and> (\<exists>p'. normalize_fn \<lparr>X_mean = [2, 3], Y_mean = [0, 0], X_scale = 4, Y_scale = 1\<rparr>
              [[1, 2], [3, 5]] ''X'' False = Inr p'
          \<and> denormalize_fn \<lparr>X_mean = [2, 3], Y_mean = [0, 0], X_scale = 4, Y_scale = 1\<rparr> p' ''X''
              = Inr [[1, 2], [3, 5]])"
proof -
  let ?np = "\<lparr>X_mean = [2, 3], Y_mean = [0, 0], X_scale = 4, Y_scale = (1::real)\<rparr>"
  have h1: "\<forall>row \<in> set [[1, 2], [3, 5::real]]. length row = length (mode_mean ?np ''X'')"
    by (simp add: mode_mean_def)
  have h2: "mode_scale ?np ''X'' \<noteq> 0"
    by (simp add: mode_scale_def)
  from normalize_roundtrip [OF h1 h2] h1 h2 show ?thesis by simp
qed

text \<open>
  C6. With normalization enabled, \<^verbatim>\<open>get_transformed_points\<close> returns the first \<open>M\<close> rows of the
  transformed cloud, each coordinate multiplied by the target's scale and shifted by the
  target's mean.
\<close>

theorem get_transformed_points_uses_target_params:
  assumes "normalize_flag e"
  shows "get_transformed_points e =
           Inr (map (\<lambda>row. map2 (\<lambda>x m. x * X_scale (normalize_params e) + m) row
                               (X_mean (normalize_params e)))
                    (take (M e) (TY_points_and_landmarks e)))"
  using assms
  by (simp add: get_transformed_points_def denormalize_fn_def normalize_fn_def
      mode_mean_def mode_scale_def Let_def)

theorem get_transformed_points_uses_target_params_witness:
  "normalize_flag (example_reg\<lparr>normalize_flag := True,
       normalize_params := \<lparr>X_mean = [5], Y_mean = [7], X_scale = 2, Y_scale = 3\<rparr>,
       TY_points_and_landmarks := [[4], [1]]\<rparr>)
   \<and> get_transformed_points (example_reg\<lparr>normalize_flag := True,
       normalize_params := \<lparr>X_mean = [5], Y_mean = [7], X_scale = 2, Y_scale = 3\<rparr>,
       TY_points_and_landmarks := [[4], [1]]\<rparr>) = Inr [[13]]"
proof -
  let ?e = "example_reg\<lparr>normalize_flag := True,
       normalize_params := \<lparr>X_mean = [5], Y_mean = [7], X_scale = 2, Y_scale = 3\<rparr>,
       TY_points_and_landmarks := [[4], [1]]\<rparr>"
  have h: "normalize_flag ?e" by simp
  show ?thesis
    using get_transformed_points_uses_target_params [OF h] by (simp add: example_reg_def)
qed

section \<open>Properties of the expectation step\<close>


lemma guarded_den_nonzero:
  "drow \<in> set (guarded_den e c) \<Longrightarrow> d \<in> set drow \<Longrightarrow> d \<noteq> 0"
  by (auto simp: guarded_den_def Let_def float_eps_def)






lemma divide_m_tiled:
  "length W = m \<Longrightarrow> divide_m W (replicate m dvec) = map (\<lambda>arow. map2 (\<lambda>a c. a / c) arow dvec) W"
  by (simp add: divide_m_def zip_replicate2 flip: map_replicate_const) 


lemma gauss_kernel_shape:
  "shapes_ok e \<Longrightarrow> length (gauss_kernel e) = M e \<and> (\<forall>r\<in>set (gauss_kernel e). length r = N e)"
  by (auto simp: gauss_kernel_def shapes_ok_def)

lemma guarded_den_tiled:
  "guarded_den e c = replicate (M e)
     (map (\<lambda>s. if s + c = 0 then float_eps else s + c) (col_sums (length (X_points e)) (gauss_kernel e)))"
  by (simp add: guarded_den_def Let_def comp_def)





lemma expectation_P:
  assumes "expectation e = Inr e'"
  obtains c where "outlier_const e = Inr c"
    and "P e' = (if landmark_guided e
                 then set_block (M e) (N e)
                        (pad_zero (K e) (length (X_points e)) (divide_m (gauss_kernel e) (guarded_den e c)))
                        (scaled_identity (K e) (sigma2 e) (ss2 e))
                 else divide_m (gauss_kernel e) (guarded_den e c))"
  using assms
  by (auto simp: expectation_def Let_def split: sum.splits if_splits)




lemma divide_m_shape:
  assumes "shapes_ok e"
  shows "length (divide_m (gauss_kernel e) (guarded_den e c)) = M e"
    and "\<forall>r\<in>set (divide_m (gauss_kernel e) (guarded_den e c)). length r = N e"
proof -
  from assms have len: "length (gauss_kernel e) = M e" and wid: "\<forall>r\<in>set (gauss_kernel e). length r = N e"
    using gauss_kernel_shape by blast+
  from assms have XN: "length (X_points e) = N e" by (simp add: shapes_ok_def)
  show "length (divide_m (gauss_kernel e) (guarded_den e c)) = M e"
    by (simp add: divide_m_def guarded_den_tiled len)
  show "\<forall>r\<in>set (divide_m (gauss_kernel e) (guarded_den e c)). length r = N e"
    using wid by (auto simp: guarded_den_tiled divide_m_tiled[OF len] col_sums_def XN)
qed


lemma block_set_block_pad:
  assumes "length W = m" 
  shows "map (drop n) (drop m (set_block m n (pad_zero k n W) (scaled_identity k s d)))
           = scaled_identity k s d"
proof -
  have "drop m (set_block m n (pad_zero k n W) (scaled_identity k s d))
      = map2 (\<lambda>r b. take n r @ b) (replicate k (replicate (n + k) 0)) (scaled_identity k s d)"
    using assms by (simp add: set_block_def pad_zero_def)
  also have "\<dots> = map (\<lambda>b. replicate n 0 @ b) (scaled_identity k s d)"
    by (simp add: scaled_identity_def zip_replicate1 ) 
  finally show ?thesis by (simp add: comp_def)
qed



lemma expectation_succeeds:
  assumes "valid_state e" "N e \<noteq> 0"
  shows "\<exists>e'. expectation e = Inr e'"
  using assms
  by (auto simp: valid_state_def expectation_def outlier_const_def py_pow_def Let_def split: sum.splits)


lemma example_reg_valid: "valid_state example_reg"
  by (simp add: valid_state_def shapes_ok_def example_reg_def)


text \<open>
  C5. In a landmark-guided state with the constructor's shapes, the block \<^verbatim>\<open>P[M:, N:]\<close>
  after an expectation step is the K by K matrix with \<open>sigma2 / ss2\<close> on the diagonal and
  0 elsewhere. This holds from any such state, so in every iteration.
\<close>

theorem expectation_landmark_block:
  assumes "landmark_guided e" and "shapes_ok e" and "expectation e = Inr e'"
  shows "map (drop (N e)) (drop (M e) (P e')) =
           map (\<lambda>i. map (\<lambda>j. if i = j then sigma2 e / ss2 e else 0) [0..<K e]) [0..<K e]"
proof -
  from assms(3) obtain c where
    Pe: "P e' = (if landmark_guided e
                 then set_block (M e) (N e)
                        (pad_zero (K e) (length (X_points e)) (divide_m (gauss_kernel e) (guarded_den e c)))
                        (scaled_identity (K e) (sigma2 e) (ss2 e))
                 else divide_m (gauss_kernel e) (guarded_den e c))"
    by (rule expectation_P)
  from assms(2) have XN: "length (X_points e) = N e" by (simp add: shapes_ok_def)
  have "map (drop (N e)) (drop (M e) (P e')) = scaled_identity (K e) (sigma2 e) (ss2 e)"
    using Pe assms(1) XN divide_m_shape(1)[OF assms(2), of c]
    by (simp add: block_set_block_pad)
  also have "\<dots> = map (\<lambda>i. map (\<lambda>j. if i = j then sigma2 e / ss2 e else 0) [0..<K e]) [0..<K e]"
    by (simp add: scaled_identity_def)
  finally show ?thesis .
qed

theorem expectation_landmark_block_witness:
  "landmark_guided example_reg \<and> shapes_ok example_reg \<and>
   (\<exists>e'. expectation example_reg = Inr e' \<and>
      map (drop (N example_reg)) (drop (M example_reg) (P e')) = [[10]])"
proof -
  have g: "landmark_guided example_reg" by (simp add: example_reg_def)
  have sh: "shapes_ok example_reg" using example_reg_valid by (simp add: valid_state_def)
  have "N example_reg \<noteq> 0" by (simp add: example_reg_def)
  with example_reg_valid obtain e' where e': "expectation example_reg = Inr e'"
    using expectation_succeeds by blast
  have "map (drop (N example_reg)) (drop (M example_reg) (P e')) = [[10]]"
    using expectation_landmark_block [OF g sh e'] by (simp add: example_reg_def)
  with g sh e' show ?thesis by auto
qed

text \<open>
  C8. The one division of the kernel matrix in \<^verbatim>\<open>expectation\<close> is by the tiled vector of
  column sums plus \<open>c\<close> in which every zero is replaced by machine epsilon: the result \<open>P\<close>
  is that quotient (padded and anchored when landmark-guided), and no entry of the
  denominator is zero.
\<close>

theorem expectation_divides_by_nonzero:
  assumes "expectation e = Inr e'"
  shows "\<exists>c. outlier_const e = Inr c
     \<and> P e' = (if landmark_guided e
               then set_block (M e) (N e)
                      (pad_zero (K e) (length (X_points e)) (divide_m (gauss_kernel e) (guarded_den e c)))
                      (scaled_identity (K e) (sigma2 e) (ss2 e))
               else divide_m (gauss_kernel e) (guarded_den e c))
     \<and> guarded_den e c =
         replicate (M e) (map (\<lambda>s. if s + c = 0 then float_eps else s + c)
                              (col_sums (length (X_points e)) (gauss_kernel e)))
     \<and> (\<forall>drow \<in> set (guarded_den e c). \<forall>d \<in> set drow. d \<noteq> 0)"
proof -
  from assms obtain c where "outlier_const e = Inr c"
    and "P e' = (if landmark_guided e
               then set_block (M e) (N e)
                      (pad_zero (K e) (length (X_points e)) (divide_m (gauss_kernel e) (guarded_den e c)))
                      (scaled_identity (K e) (sigma2 e) (ss2 e))
               else divide_m (gauss_kernel e) (guarded_den e c))"
    by (rule expectation_P)
  with guarded_den_tiled[of e c] guarded_den_nonzero[of _ e c] show ?thesis by blast
qed

lemma zero_den_const: "outlier_const zero_den_reg = Inr (- 1)"
  by (simp add: outlier_const_def py_pow_def zero_den_reg_def example_reg_def)

lemma zero_den_expectation: "\<exists>e'. expectation zero_den_reg = Inr e'"
  by (simp add: expectation_def zero_den_const Let_def) (simp add: zero_den_reg_def example_reg_def)

theorem expectation_divides_by_nonzero_witness:
  "\<exists>e'. expectation zero_den_reg = Inr e'
      \<and> outlier_const zero_den_reg = Inr (- 1)
      \<and> col_sums 2 (gauss_kernel zero_den_reg) = [1, 1]
      \<and> guarded_den zero_den_reg (- 1) = [[float_eps, float_eps]]
      \<and> P e' = [[1 / float_eps, 1 / float_eps]]
      \<and> float_eps \<noteq> 0"
proof -
  from zero_den_expectation obtain e' where e': "expectation zero_den_reg = Inr e'" by blast
  from expectation_divides_by_nonzero [OF e'] zero_den_const
  have Pe: "P e' = divide_m (gauss_kernel zero_den_reg) (guarded_den zero_den_reg (- 1))"
    and nz: "\<forall>drow \<in> set (guarded_den zero_den_reg (- 1)). \<forall>d \<in> set drow. d \<noteq> 0"
    by (auto simp: zero_den_reg_def example_reg_def)
  have k: "gauss_kernel zero_den_reg = [[1, 1]]"
    by (simp add: gauss_kernel_def sqdist_def zero_den_reg_def example_reg_def)
  have cs: "col_sums 2 (gauss_kernel zero_den_reg) = [1, 1]"
    by (simp add: k col_sums_def numeral_2_eq_2)
  have gd: "guarded_den zero_den_reg (- 1) = [[float_eps, float_eps]]"
    by (simp add: guarded_den_def Let_def k col_sums_def numeral_2_eq_2)
       (simp add: zero_den_reg_def example_reg_def numeral_2_eq_2)
  from nz gd have "float_eps \<noteq> 0" by simp
  with e' zero_den_const cs gd Pe k show ?thesis by (auto simp: divide_m_def)
qed

section \<open>Properties of the constructor\<close>

lemmas init_defs = em_init_def em_init_rest_def Let_def ndim_def shape_at_def len_arr_def bind_e_def
  concatenate_def calculateNormalizationParams_def normalize_fn_def mode_mean_def mode_scale_def


lemma sel_upd:
  "arg_X (a\<lparr>arg_max_iterations := v\<rparr>) = arg_X a"
  "arg_Y (a\<lparr>arg_max_iterations := v\<rparr>) = arg_Y a"
  "arg_sigma2 (a\<lparr>arg_max_iterations := v\<rparr>) = arg_sigma2 a"
  "arg_tolerance (a\<lparr>arg_max_iterations := v\<rparr>) = arg_tolerance a"
  "arg_outliers (a\<lparr>arg_max_iterations := v\<rparr>) = arg_outliers a"
  "arg_ss2 (a\<lparr>arg_max_iterations := v\<rparr>) = arg_ss2 a"
  "arg_X_landmarks (a\<lparr>arg_max_iterations := v\<rparr>) = arg_X_landmarks a"
  "arg_Y_landmarks (a\<lparr>arg_max_iterations := v\<rparr>) = arg_Y_landmarks a"
  "arg_normalize (a\<lparr>arg_max_iterations := v\<rparr>) = arg_normalize a"
  "arg_normalize_joint (a\<lparr>arg_max_iterations := v\<rparr>) = arg_normalize_joint a"
  "arg_verbose (a\<lparr>arg_max_iterations := v\<rparr>) = arg_verbose a"
  "arg_force_max_iterations (a\<lparr>arg_max_iterations := v\<rparr>) = arg_force_max_iterations a"
  by simp_all

lemma em_init_rest_update:
  "em_init_rest (a\<lparr>arg_max_iterations := v\<rparr>) m = em_init_rest a m"
  unfolding em_init_rest_def sel_upd by (rule refl)

lemma bind_e_Inr: "bind_e m f = Inr y \<Longrightarrow> \<exists>x. m = Inr x \<and> f x = Inr y"
  by (cases m) (simp_all add: bind_e_def)

lemma em_init_rest_max_iterations:
  "em_init_rest a m = Inr e \<Longrightarrow> max_iterations e = m"
  unfolding em_init_rest_def Let_def
  by (auto split: if_splits dest!: bind_e_Inr)


lemma em_init_with_max:
  "em_init (a\<lparr>arg_max_iterations := Some c\<rparr>) =
     (if ndim (arg_X a) \<noteq> 2 \<or> ndim (arg_Y a) \<noteq> 2 \<or> shape (arg_X a) ! 1 \<noteq> shape (arg_Y a) ! 1
         \<or> (case arg_sigma2 a of None \<Rightarrow> False | Some s \<Rightarrow> s \<le> 0) \<or> num_neg c
      then Inl ValueError
      else bind_e (py_int c) (\<lambda>i.
             bind_e (em_init_rest a (Some i))
               (\<lambda>e. Inr (e, case c of PyInt j \<Rightarrow> [] | _ \<Rightarrow> [NonIntegerMaxIterations c]))))"
  unfolding em_init_def Let_def sel_upd em_init_rest_update
  by (cases c) (simp_all add: bind_e_def)

text \<open>
  C9, for finite values and with truncation. If \<^verbatim>\<open>max_iterations\<close> is a finite
  non-negative float \<open>r\<close> (\<open>PyFloat r\<close>) and the constructor
  accepts the other arguments with the integer \<open>\<lfloor>r\<rfloor>\<close> in its place, then construction with
  \<open>r\<close> succeeds with the same engine, issues the warning, and stores \<open>\<lfloor>r\<rfloor>\<close>: the value
  truncated toward zero, not the nearest integer.
\<close>

theorem em_init_float_max_iterations:
  assumes "0 \<le> r"
    and "em_init (a\<lparr>arg_max_iterations := Some (PyInt \<lfloor>r\<rfloor>)\<rparr>) = Inr (e, ws)"
  shows "em_init (a\<lparr>arg_max_iterations := Some (PyFloat r)\<rparr>)
           = Inr (e, [NonIntegerMaxIterations (PyFloat r)])
         \<and> max_iterations e = Some \<lfloor>r\<rfloor>"
proof -
  from assms(2) have rest: "em_init_rest a (Some \<lfloor>r\<rfloor>) = Inr e"
    and chk: "\<not> (ndim (arg_X a) \<noteq> 2 \<or> ndim (arg_Y a) \<noteq> 2 \<or> shape (arg_X a) ! 1 \<noteq> shape (arg_Y a) ! 1
         \<or> (case arg_sigma2 a of None \<Rightarrow> False | Some s \<Rightarrow> s \<le> 0))"
    by (auto simp: em_init_with_max split: if_splits dest!: bind_e_Inr)
  from assms(1) chk rest
  have "em_init (a\<lparr>arg_max_iterations := Some (PyFloat r)\<rparr>)
           = Inr (e, [NonIntegerMaxIterations (PyFloat r)])"
    by (simp add: em_init_with_max bind_e_def)
  with em_init_rest_max_iterations[OF rest] show ?thesis by simp
qed

theorem em_init_float_max_iterations_witness:
  "0 \<le> (11 / 4 :: real) \<and>
   (\<exists>e. em_init (example_args\<lparr>arg_max_iterations := Some (PyInt \<lfloor>11 / 4 :: real\<rfloor>)\<rparr>) = Inr (e, [])
      \<and> em_init (example_args\<lparr>arg_max_iterations := Some (PyFloat (11 / 4))\<rparr>)
           = Inr (e, [NonIntegerMaxIterations (PyFloat (11 / 4))])
      \<and> max_iterations e = Some 2)"
proof -
  have h1: "0 \<le> (11 / 4 :: real)" by simp
  obtain e where h2: "em_init (example_args\<lparr>arg_max_iterations := Some (PyInt \<lfloor>11 / 4 :: real\<rfloor>)\<rparr>) = Inr (e, [])"
    by (simp add: init_defs example_args_def)
  from em_init_float_max_iterations [OF h1 h2] h1 h2 show ?thesis by auto
qed

text \<open>No call that leaves \<^verbatim>\<open>X_landmarks\<close> out returns an engine.\<close>

lemma em_init_rest_no_landmarks:
  "arg_X_landmarks a = None \<Longrightarrow> \<exists>err. em_init_rest a m = Inl err"
  by (simp add: em_init_rest_def Let_def shape_at_def bind_e_def)

lemma em_init_no_landmarks:
  assumes "arg_X_landmarks a = None"
  shows "\<exists>err. em_init a = Inl err"
proof (cases "em_init a")
  case (Inl err)
  then show ?thesis by blast
next
  case (Inr r)
  then obtain m e where "em_init_rest a m = Inr e"
    by (auto simp: em_init_def Let_def split: if_splits prod.splits dest!: bind_e_Inr)
  with em_init_rest_no_landmarks[OF assms, of m] show ?thesis by simp
qed

text \<open>
  C1. With both landmark arguments left out, the constructor does not return an engine:
  \<^verbatim>\<open>xp.asarray(None)\<close> is a 0-dimensional array, and reading \<^verbatim>\<open>shape[0]\<close> of it raises
  IndexError.
\<close>

theorem em_init_without_landmarks_raises:
  "em_init (example_args\<lparr>arg_X_landmarks := None, arg_Y_landmarks := None\<rparr>) = Inl IndexError"
  by (simp add: init_defs example_args_def)

text \<open>
  A non-negative float that is not finite passes the check of the sign, and the cast
  raises: no engine is returned for \<^verbatim>\<open>float('inf')\<close> or \<^verbatim>\<open>float('nan')\<close>.
\<close>

lemma em_init_nonfinite_max_iterations:
  "\<exists>err. em_init (a\<lparr>arg_max_iterations := Some PyInf\<rparr>) = Inl err"
  "\<exists>err. em_init (a\<lparr>arg_max_iterations := Some PyNaN\<rparr>) = Inl err"
  by (simp_all add: em_init_with_max bind_e_def)

text \<open>
  C9, read for every non-negative float and with rounding to the nearest integer, fails
  twice. At \<^verbatim>\<open>max_iterations = 2.75\<close> the constructor
  stores 2, and 2.75 rounded to the nearest integer is 3. At \<^verbatim>\<open>max_iterations = float('inf')\<close>,
  a non-negative number that is no integer, the cast raises OverflowError.
\<close>

theorem em_init_float_max_iterations_counterexample:
  "(\<exists>e ws. em_init (example_args\<lparr>arg_max_iterations := Some (PyFloat (11 / 4))\<rparr>) = Inr (e, ws)
      \<and> max_iterations e = Some 2 \<and> max_iterations e \<noteq> Some (round (11 / 4 :: real)))
   \<and> em_init (example_args\<lparr>arg_max_iterations := Some PyInf\<rparr>) = Inl OverflowError"
  by (simp add: init_defs example_args_def round_def)

lemma example_reg_constructed:
  "affine_init psd None None example_args = Inr (example_reg, [])"
  by (simp add: affine_init_def init_defs example_args_def example_reg_def
      emregistration.defs affine_registration.defs)

section \<open>Properties of the iteration and the registration loop\<close>

lemma expectation_control:
  assumes "expectation e = Inr e'"
  shows "max_iterations e' = max_iterations e" "force_max_iterations e' = force_max_iterations e"
    "tolerance e' = tolerance e" "iteration e' = iteration e"
  using assms by (auto simp: expectation_def Let_def split: if_splits sum.splits)

lemma update_transform_control:
  assumes "update_transform sv e = Inr e'"
  shows "max_iterations e' = max_iterations e" "force_max_iterations e' = force_max_iterations e"
    "tolerance e' = tolerance e" "iteration e' = iteration e"
  using assms by (auto simp: update_transform_def Let_def split: if_splits sum.splits)

lemma transform_point_cloud_control:
  "max_iterations (transform_point_cloud e) = max_iterations e"
  "force_max_iterations (transform_point_cloud e) = force_max_iterations e"
  "tolerance (transform_point_cloud e) = tolerance e"
  "iteration (transform_point_cloud e) = iteration e"
  by (simp_all add: transform_point_cloud_def)

lemma update_variance_control:
  assumes "update_variance e = Inr e'"
  shows "max_iterations e' = max_iterations e" "force_max_iterations e' = force_max_iterations e"
    "tolerance e' = tolerance e" "iteration e' = iteration e" "q e' = Infinity"
  using assms by (auto simp: update_variance_def Let_def split: if_splits)

lemma iterate_control:
  assumes "iterate sv e = Inr e'"
  shows "max_iterations e' = max_iterations e" "force_max_iterations e' = force_max_iterations e"
    "tolerance e' = tolerance e" "iteration e' = iteration e + 1" "q e' = Infinity"
proof -
  from assms obtain e1 e2 e3 where 1: "expectation e = Inr e1"
    and 2: "update_transform sv e1 = Inr e2"
    and 3: "update_variance (transform_point_cloud e2) = Inr e3"
    and 4: "e' = e3\<lparr>iteration := iteration e3 + 1\<rparr>"
    by (auto simp: iterate_def maximization_def update_hyperparameters_def split: sum.splits)
  note c = expectation_control[OF 1] update_transform_control[OF 2] transform_point_cloud_control[of e2]
    update_variance_control[OF 3]
  from 4 c show "max_iterations e' = max_iterations e" by simp
  from 4 c show "force_max_iterations e' = force_max_iterations e" by simp
  from 4 c show "tolerance e' = tolerance e" by simp
  from 4 c show "iteration e' = iteration e + 1" by simp
  from 4 c show "q e' = Infinity" by simp
qed




lemma callbacks_error_infinity:
  "\<forall>kw \<in> set calls. kw_error kw = Infinity \<Longrightarrow>
   \<forall>kw \<in> set (fst (register_loop sv cb fuel e calls)). kw_error kw = Infinity"
proof (induction fuel arbitrary: e calls)
  case 0
  then show ?case by simp
next
  case (Suc fuel)
  show ?case
  proof (cases "loop_cond e")
    case False
    with Suc.prems show ?thesis by simp
  next
    case True
    show ?thesis
    proof (cases "iterate sv e")
      case (Inl err)
      with True Suc.prems show ?thesis by simp
    next
      case (Inr e1)
      from iterate_control(5)[OF Inr] have "kw_error (make_kwargs e1) = Infinity"
        by (simp add: make_kwargs_def)
      with Suc.prems have "\<forall>kw \<in> set (if cb then calls @ [make_kwargs e1] else calls). kw_error kw = Infinity"
        by auto
      from Suc.IH[OF this] True Inr show ?thesis by simp
    qed
  qed
qed

lemmas array_defs = gauss_kernel_def col_sums_def row_sums_def sqdist_def mat_mul_def divide_m_def
  guarded_den_def pad_zero_def scaled_identity_def set_block_def transpose_m_def diag_m_def
  mat_vec_def vec_mat_def add_m_def sub_m_def sq_norms_def dot_v_def float_eps_def

lemmas step_defs = iterate_def update_hyperparameters_def expectation_def outlier_const_def py_pow_def
  maximization_def update_transform_def transform_point_cloud_def update_variance_def solve_1x1_def
  Let_def

lemma iterate_example_reg:
  "\<exists>e'. iterate solve_1x1 example_reg = Inr e' \<and> sigma2 e' = 1 / 10000
     \<and> diff e' = Finite (9999 / 10000)"
  by (simp add: step_defs array_defs example_reg_def)


lemma iterate_example_zero_tolerance:
  "\<exists>e'. iterate solve_1x1 (example_reg\<lparr>tolerance := 0\<rparr>) = Inr e' \<and> sigma2 e' = 0"
  by (simp add: step_defs array_defs example_reg_def)

lemma transform_example_reg: "transform_point_cloud example_reg = example_reg"
  by (simp add: transform_point_cloud_def array_defs example_reg_def)

lemma update_variance_positive:
  "update_variance e = Inr e' \<Longrightarrow> 0 < tolerance e \<Longrightarrow> 0 < sigma2 e'"
  by (auto simp: update_variance_def Let_def split: if_splits)

lemma example_zero_tolerance_constructed:
  "affine_init psd None None (example_args\<lparr>arg_tolerance := Some 0\<rparr>)
     = Inr (example_reg\<lparr>tolerance := 0\<rparr>, [])"
  by (simp add: affine_init_def init_defs example_args_def example_reg_def
      emregistration.defs affine_registration.defs)

text \<open>
  C4. The constructor accepts \<^verbatim>\<open>tolerance = 0\<close> (the lemma above); from the engine it
  builds for coinciding points, one iteration computes a variance of 0, replaces it by \<^verbatim>\<open>tolerance / 10 = 0\<close>, and
  leaves \<open>sigma2 = 0\<close>, which is not positive.
\<close>

theorem update_variance_zero_tolerance:
  "\<exists>e'. iterate solve_1x1 (example_reg\<lparr>tolerance := 0\<rparr>) = Inr e' \<and> sigma2 e' = 0
      \<and> \<not> 0 < sigma2 e'"
  using iterate_example_zero_tolerance by auto



text \<open>
  C10. In every call of the callback that \<^verbatim>\<open>register\<close> makes for the affine model, within
  any number of loop rounds and whether or not the run ends, the \<^verbatim>\<open>error\<close> argument is
  infinity.
\<close>

theorem callback_error_is_infinity:
  "\<forall>kw \<in> set (fst (register sv has_cb fuel e)). kw_error kw = Infinity"
proof -
  have "\<forall>kw \<in> set (fst (register_loop sv has_cb fuel (transform_point_cloud e) [])). kw_error kw = Infinity"
    by (rule callbacks_error_infinity) simp
  moreover have "fst (register sv has_cb fuel e) = fst (register_loop sv has_cb fuel (transform_point_cloud e) [])"
    by (simp add: register_def split: prod.splits option.splits sum.splits)
  ultimately show ?thesis by simp
qed

theorem callback_error_is_infinity_witness:
  "\<exists>kw. fst (register solve_1x1 True 1 example_reg) = [kw] \<and> kw_iteration kw = 1
      \<and> kw_error kw = Infinity"
proof -
  from iterate_example_reg obtain e1 where e1: "iterate solve_1x1 example_reg = Inr e1" by blast
  have lc: "loop_cond example_reg" by (simp add: loop_cond_def example_reg_def)
  have rl: "register_loop solve_1x1 True 1 example_reg []
      = ([make_kwargs e1], if loop_cond e1 then None else Some (Inr e1))"
    using e1 lc by simp
  have calls: "fst (register solve_1x1 True 1 example_reg) = [make_kwargs e1]"
    unfolding register_def transform_example_reg rl
    by (cases "loop_cond e1") (simp_all split: sum.splits prod.splits)
  have "iteration e1 = 1" using iterate_control(4)[OF e1] by (simp add: example_reg_def)
  then have "kw_iteration (make_kwargs e1) = 1" by (simp add: make_kwargs_def)
  moreover have "kw_error (make_kwargs e1) = Infinity"
    using callback_error_is_infinity [of solve_1x1 True 1 example_reg] calls by simp
  ultimately show ?thesis using calls by blast
qed

section \<open>Float64 rounding and the column sums\<close>













lemma float_counter_reg_constructed:
  "affine_init psd None None float_counter_args = Inr (float_counter_reg, [])"
  by (simp add: affine_init_def init_defs float_counter_args_def example_args_def
      float_counter_reg_def example_reg_def emregistration.defs affine_registration.defs
      eval_nat_numeral)



end
